theory Spec2Isabelle
  imports Main "HOL-Library.Word"
begin

section \<open>ripsrc: the Ripper facade and directory discovery\<close>

text \<open>
  The development follows two source files: \<^verbatim>\<open>ripsrc/rip.go\<close> (the types
  \<^verbatim>\<open>BlameResult\<close>, \<^verbatim>\<open>BlameLine\<close>, \<^verbatim>\<open>RipOpts\<close>, \<^verbatim>\<open>Ripper\<close> and the
  methods \<^verbatim>\<open>Rip\<close> and \<^verbatim>\<open>RipSlice\<close>) and the \<^verbatim>\<open>ripcmd\<close> package
  (\<^verbatim>\<open>runOnDirs\<close>, \<^verbatim>\<open>dirContainsDir\<close>, \<^verbatim>\<open>hasHeadCommit\<close>).
  The packages \<^verbatim>\<open>gitexec\<close>, \<^verbatim>\<open>parentsgraph\<close>, \<^verbatim>\<open>branches\<close>, \<^verbatim>\<open>commitmeta\<close>,
  \<^verbatim>\<open>fileinfo\<close> and \<^verbatim>\<open>history3/process\<close> and the methods \<^verbatim>\<open>getCommitInfo\<close> and
  \<^verbatim>\<open>codeInfoFiles\<close> are called by \<^verbatim>\<open>Rip\<close> but are not part of these files; \<^verbatim>\<open>Rip\<close>
  is therefore modelled over a record of collaborators.
\<close>

subsection \<open>Errors and panics\<close>

text \<open>
  Go error values. \<^verbatim>\<open>ErrNoHeadCommit\<close> is declared in rip.go, \<^verbatim>\<open>errRevParseFailed\<close>
  in ripcmd; every other error is carried with its message.
\<close>

datatype error = ErrNoHeadCommit | errRevParseFailed | Err string

text \<open>
  A panic carries either the error handed to \<^verbatim>\<open>panic(err)\<close> or the runtime's
  "send on closed channel".
\<close>

datatype panic_value = PanicErr error | SendOnClosedChannel

subsection \<open>The emitted record (rip.go, lines 21-62)\<close>

text \<open>
  \<^verbatim>\<open>int64\<close> fields are 64-bit words; the two \<^verbatim>\<open>float64\<close> values are carried as
  their 64-bit patterns, since no modelled code computes with them; \<^verbatim>\<open>time.Time\<close> is an
  integer instant.
\<close>

type_synonym int64 = "64 word"
type_synonym float64 = "64 word"

text \<open>
  \<^verbatim>\<open>CommitStatus\<close> is an alias of \<^verbatim>\<open>commitmeta.CommitStatus\<close>; rip.go re-exports
  the three constants below.
\<close>

datatype CommitStatus =
    GitFileCommitStatusAdded
  | GitFileCommitStatusModified
  | GitFileCommitStatusRemoved

record BlameLine =
  Name :: string
  Email :: string
  Date :: int
  Comment :: bool
  Code :: bool
  Blank :: bool

text \<open>\<^verbatim>\<open>License\<close> is an alias of \<^verbatim>\<open>fileinfo.License\<close>; ripcmd reads its two fields.\<close>

record License =
  lic_Name :: string
  lic_Confidence :: float64

text \<open>
  \<^verbatim>\<open>Commit\<close> is declared elsewhere in package ripsrc. The fields kept are those the
  sources read: \<^verbatim>\<open>SHA\<close> and \<^verbatim>\<open>Branches\<close> (the e2e tests), \<^verbatim>\<open>Files\<close> (ripcmd prints
  \<^verbatim>\<open>blame.Commit.Files[blame.Filename].Status\<close>). \<^verbatim>\<open>Files\<close> is a Go map; it is kept as an
  association list in the order the tool lists the files.
\<close>

record Commit =
  SHA :: string
  Files :: "(string \<times> CommitStatus) list"
  Branches :: "string list"

record BlameResult =
  Commit :: Commit
  Language :: string
  Filename :: string
  Lines :: "BlameLine list"
  Size :: int64
  Loc :: int64
  Sloc :: int64
  Comments :: int64
  Blanks :: int64
  Complexity :: int64
  WeightedComplexity :: float64
  Skipped :: string
  License :: "License option"
  Status :: CommitStatus

subsection \<open>Options and the Ripper (rip.go, lines 64-98)\<close>

datatype Logger = DefaultLogger_Stdout | UserLogger string

record RipOpts =
  Logger :: "Logger option"
  CheckpointsDir :: string
  NoStrictResume :: bool
  CommitFromIncl :: string
  AllBranches :: bool

text \<open>The value of \<^verbatim>\<open>&RipOpts{}\<close>.\<close>

definition zero_RipOpts :: RipOpts where
  "zero_RipOpts =
     \<lparr>Logger = None, CheckpointsDir = [], NoStrictResume = False,
      CommitFromIncl = [], AllBranches = False\<rparr>"

text \<open>
  The Ripper, over the absent types: \<open>'g\<close> is \<^verbatim>\<open>parentsgraph.Graph\<close>, \<open>'b\<close> is
  \<^verbatim>\<open>branches.Process\<close>, \<open>'m\<close> is \<^verbatim>\<open>commitmeta.Commit\<close>. A nil pointer is \<open>None\<close>.
  The timing fields and \<^verbatim>\<open>fileInfo\<close> are statistics and a stateless helper and are left out.
\<close>

record ('g, 'b, 'm) Ripper =
  commitMeta :: "string \<rightharpoonup> 'm"
  parentsGraph :: "'g option"
  branches :: "'b option"

text \<open>\<^verbatim>\<open>New()\<close>: every modelled field is at its zero value.\<close>

definition New :: "('g, 'b, 'm) Ripper" where
  "New = \<lparr>commitMeta = Map.empty, parentsGraph = None, branches = None\<rparr>"

record parentsgraph_Opts =
  pg_RepoDir :: string
  pg_AllBranches :: bool
  pg_Logger :: "Logger option"

record 'g branches_Opts =
  br_RepoDir :: string
  br_ParentsGraph :: "'g option"

record process_Opts =
  po_Logger :: "Logger option"
  po_RepoDir :: string
  po_CheckpointsDir :: string
  po_NoStrictResume :: bool
  po_CommitFromIncl :: string
  po_AllBranches :: bool

subsection \<open>The collaborators of Rip\<close>

text \<open>
  What \<^verbatim>\<open>Rip\<close> calls and does not define. \<open>'r\<close> is \<^verbatim>\<open>process.Result\<close>.
  \<^item> \<open>gitexec_Prepare\<close>, \<open>parentsgraph_Read\<close>, \<open>branches_Run\<close> return an error or succeed;
    the two latter also yield the updated object.
  \<^item> \<open>getCommitInfo\<close> is a method of the Ripper: it returns an error or the commit table
    it stores in \<^verbatim>\<open>s.commitMeta\<close>.
  \<^item> \<open>process_Run\<close> gives the results \<^verbatim>\<open>gitProcessor.Run\<close> hands over on \<^verbatim>\<open>gitRes\<close>
    (an unbuffered channel, closed when \<^verbatim>\<open>Run\<close> returns) and the error it returns.
  \<^item> \<open>codeInfoFiles\<close> is a method of the Ripper reading its state.
  \<^item> \<open>sched\<close> is the scheduler's choice on the one path where \<^verbatim>\<open>Rip\<close> does not wait for
    its worker goroutine (see \<open>race\<close> below); \<open>crash_first\<close> says whether a panic of
    the worker after \<^verbatim>\<open>Rip\<close> has returned ends the process before the caller's next
    step.
  The context argument is not modelled: a cancellation reaches \<^verbatim>\<open>Rip\<close> as an error of
  one of the collaborators.
\<close>

record ('g, 'b, 'm, 'r) Env =
  gitexec_Prepare :: "string \<Rightarrow> string \<Rightarrow> error option"
  parentsgraph_New :: "parentsgraph_Opts \<Rightarrow> 'g"
  parentsgraph_Read :: "'g \<Rightarrow> error + 'g"
  branches_New :: "'g branches_Opts \<Rightarrow> 'b"
  branches_Run :: "'b \<Rightarrow> error + 'b"
  getCommitInfo :: "('g, 'b, 'm) Ripper \<Rightarrow> string \<Rightarrow> RipOpts \<Rightarrow> error + (string \<rightharpoonup> 'm)"
  process_Run :: "process_Opts \<Rightarrow> 'r list \<times> error option"
  codeInfoFiles :: "('g, 'b, 'm) Ripper \<Rightarrow> 'r \<Rightarrow> RipOpts \<Rightarrow> error + BlameResult list"
  sched :: nat
  crash_first :: bool

definition gitCommand :: string where
  "gitCommand = ''git''"

subsection \<open>One run of Rip\<close>

text \<open>
  How a call ends: \<open>Returned e\<close> is a normal return of the error value \<open>e\<close> (\<open>None\<close> is
  nil); \<open>Panicked e\<close> is \<^verbatim>\<open>panic(e)\<close> in the goroutine of \<^verbatim>\<open>Rip\<close> itself, which runs
  the deferred calls and unwinds into the caller; \<open>Crashed p\<close> is a panic in the worker
  goroutine, which terminates the process while \<^verbatim>\<open>Rip\<close> is still running.
\<close>

datatype exit = Returned "error option" | Panicked error | Crashed panic_value

text \<open>
  The observable run: how it ended, the values received from \<^verbatim>\<open>res\<close> in order, how often
  \<^verbatim>\<open>res\<close> was closed, a panic of the worker after \<^verbatim>\<open>Rip\<close> has returned, and the
  Ripper's final state. \<^verbatim>\<open>res\<close> is taken to be an open channel with a receiver that
  drains it.
\<close>

record ('g, 'b, 'm) RipRun =
  exit :: exit
  delivered :: "BlameResult list"
  closes :: nat
  aftermath :: "panic_value option"
  ripper :: "('g, 'b, 'm) Ripper"

text \<open>
  The worker goroutine (lines 145-156): for each result received from \<^verbatim>\<open>gitRes\<close> it calls
  \<^verbatim>\<open>codeInfoFiles\<close>, panics on an error and otherwise sends every record on \<^verbatim>\<open>res\<close>.
  The accumulator holds what has been sent.
\<close>

fun worker ::
  "('r \<Rightarrow> error + BlameResult list) \<Rightarrow> 'r list \<Rightarrow> BlameResult list \<Rightarrow>
   error option \<times> BlameResult list" where
  "worker f [] out = (None, out)"
| "worker f (r1 # rest) out =
     (case f r1 of
        Inl err \<Rightarrow> (Some err, out)
      | Inr rs \<Rightarrow> worker f rest (out @ rs))"

text \<open>What the worker sends for one result: the records of \<^verbatim>\<open>codeInfoFiles\<close>, if any.\<close>

definition batch :: "('r \<Rightarrow> error + BlameResult list) \<Rightarrow> 'r \<Rightarrow> BlameResult list" where
  "batch f r1 = (case f r1 of Inl err \<Rightarrow> [] | Inr rs \<Rightarrow> rs)"

text \<open>The pair that identifies an emission: the sha of its commit and its file name.\<close>

definition emission_key :: "BlameResult \<Rightarrow> string \<times> string" where
  "emission_key b = (SHA (Commit b), Filename b)"

text \<open>
  When \<^verbatim>\<open>gitProcessor.Run\<close> returns an error, \<^verbatim>\<open>Rip\<close> returns at once (line 169) and
  the deferred \<^verbatim>\<open>close(res)\<close> runs while the worker may still be busy with the last result
  it received. \<open>k\<close> counts the worker's steps on that result before the close: step 1 is
  the call of \<^verbatim>\<open>codeInfoFiles\<close>, every further step one send. What the worker does after
  the close (a panic on the error, a send on the closed channel, or blocking on \<^verbatim>\<open>done\<close>)
  is the aftermath.
\<close>

definition race ::
  "('r \<Rightarrow> error + BlameResult list) \<Rightarrow> 'r \<Rightarrow> BlameResult list \<Rightarrow> nat \<Rightarrow> error \<Rightarrow>
   ('g, 'b, 'm) Ripper \<Rightarrow> ('g, 'b, 'm) RipRun" where
  "race f r out k err s =
     (if k = 0 then
        \<lparr>exit = Returned (Some err), delivered = out, closes = 0,
         aftermath = (case f r of
                        Inl e \<Rightarrow> Some (PanicErr e)
                      | Inr rs \<Rightarrow> if rs = [] then None else Some SendOnClosedChannel),
         ripper = s\<rparr>
      else
        (case f r of
           Inl e \<Rightarrow>
             \<lparr>exit = Crashed (PanicErr e), delivered = out, closes = 0,
              aftermath = None, ripper = s\<rparr>
         | Inr rs \<Rightarrow>
             \<lparr>exit = Returned (Some err), delivered = out @ take (k - 1) rs, closes = 0,
              aftermath = (if k - 1 < length rs then Some SendOnClosedChannel else None),
              ripper = s\<rparr>))"

text \<open>
  Lines 143-176: the worker is started, \<^verbatim>\<open>gitProcessor.Run\<close> feeds it. On success
  \<^verbatim>\<open>Rip\<close> waits for \<^verbatim>\<open>done\<close>, so the worker has forwarded everything. Since \<^verbatim>\<open>gitRes\<close>
  is unbuffered and the worker is sequential, on an error of \<^verbatim>\<open>Run\<close> every result but
  the last handed over has been forwarded in full.
\<close>

definition processOpts_of :: "string \<Rightarrow> RipOpts \<Rightarrow> process_Opts" where
  "processOpts_of repoDir opts =
     \<lparr>po_Logger = Logger opts, po_RepoDir = repoDir,
      po_CheckpointsDir = CheckpointsDir opts,
      po_NoStrictResume = NoStrictResume opts,
      po_CommitFromIncl = CommitFromIncl opts,
      po_AllBranches = AllBranches opts\<rparr>"

definition pipeline ::
  "('g, 'b, 'm, 'r) Env \<Rightarrow> ('g, 'b, 'm) Ripper \<Rightarrow> string \<Rightarrow> RipOpts \<Rightarrow> ('g, 'b, 'm) RipRun" where
  "pipeline env s repoDir opts =
     (let f = (\<lambda>r1. codeInfoFiles env s r1 opts)
      in case process_Run env (processOpts_of repoDir opts) of
           (results, None) \<Rightarrow>
             (case worker f results [] of
                (Some e, out) \<Rightarrow>
                  \<lparr>exit = Crashed (PanicErr e), delivered = out, closes = 0,
                   aftermath = None, ripper = s\<rparr>
              | (None, out) \<Rightarrow>
                  \<lparr>exit = Returned None, delivered = out, closes = 0,
                   aftermath = None, ripper = s\<rparr>)
         | (results, Some err) \<Rightarrow>
             (if results = [] then
                \<lparr>exit = Returned (Some err), delivered = [], closes = 0,
                 aftermath = None, ripper = s\<rparr>
              else
                (case worker f (butlast results) [] of
                   (Some e, out) \<Rightarrow>
                     \<lparr>exit = Crashed (PanicErr e), delivered = out, closes = 0,
                      aftermath = None, ripper = s\<rparr>
                 | (None, out) \<Rightarrow> race f (last results) out (sched env) err s)))"

text \<open>An early \<^verbatim>\<open>return err\<close>: nothing was sent.\<close>

definition ret :: "error \<Rightarrow> ('g, 'b, 'm) Ripper \<Rightarrow> ('g, 'b, 'm) RipRun" where
  "ret err s =
     \<lparr>exit = Returned (Some err), delivered = [], closes = 0, aftermath = None, ripper = s\<rparr>"

text \<open>
  Lines 103-109: a nil \<^verbatim>\<open>opts\<close> becomes \<^verbatim>\<open>&RipOpts{}\<close>, a nil logger the default
  logger on standard output.
\<close>

definition effective_opts :: "RipOpts option \<Rightarrow> RipOpts" where
  "effective_opts opts0 =
     (let opts = (case opts0 of None \<Rightarrow> zero_RipOpts | Some x \<Rightarrow> x)
      in case Logger opts of
           None \<Rightarrow> opts\<lparr>Logger := Some DefaultLogger_Stdout\<rparr>
         | Some l \<Rightarrow> opts)"

text \<open>
  Lines 116-136: the parents graph is created, stored and read; with \<^verbatim>\<open>AllBranches\<close>
  the branches process is created, stored and run. Either error is returned.
\<close>

definition read_graph_and_branches ::
  "('g, 'b, 'm, 'r) Env \<Rightarrow> ('g, 'b, 'm) Ripper \<Rightarrow> string \<Rightarrow> RipOpts \<Rightarrow>
   (error \<times> ('g, 'b, 'm) Ripper) + ('g, 'b, 'm) Ripper" where
  "read_graph_and_branches env s repoDir opts =
     (let g = parentsgraph_New env
                \<lparr>pg_RepoDir = repoDir, pg_AllBranches = AllBranches opts,
                 pg_Logger = Logger opts\<rparr>;
          s1 = s\<lparr>parentsGraph := Some g\<rparr>
      in case parentsgraph_Read env g of
           Inl err \<Rightarrow> Inl (err, s1)
         | Inr g' \<Rightarrow>
             (let s2 = s1\<lparr>parentsGraph := Some g'\<rparr>
              in if AllBranches opts then
                   (let b = branches_New env
                              \<lparr>br_RepoDir = repoDir, br_ParentsGraph = parentsGraph s2\<rparr>
                    in case branches_Run env b of
                         Inl err \<Rightarrow> Inl (err, s2\<lparr>branches := Some b\<rparr>)
                       | Inr b' \<Rightarrow> Inr (s2\<lparr>branches := Some b'\<rparr>))
                 else Inr s2))"

text \<open>
  Lines 103-177, the body of \<^verbatim>\<open>Rip\<close> without the deferred call. The error of
  \<^verbatim>\<open>getCommitInfo\<close> is not returned: line 140 panics with it.
\<close>

definition Rip_body ::
  "('g, 'b, 'm, 'r) Env \<Rightarrow> ('g, 'b, 'm) Ripper \<Rightarrow> string \<Rightarrow> RipOpts option \<Rightarrow>
   ('g, 'b, 'm) RipRun" where
  "Rip_body env s repoDir opts0 =
     (let opts = effective_opts opts0
      in case gitexec_Prepare env gitCommand repoDir of
           Some err \<Rightarrow> ret err s
         | None \<Rightarrow>
             (case read_graph_and_branches env s repoDir opts of
                Inl (err, s3) \<Rightarrow> ret err s3
              | Inr s3 \<Rightarrow>
                  (case getCommitInfo env s3 repoDir opts of
                     Inl err \<Rightarrow>
                       \<lparr>exit = Panicked err, delivered = [], closes = 0,
                        aftermath = None, ripper = s3\<rparr>
                   | Inr m \<Rightarrow> pipeline env (s3\<lparr>commitMeta := m\<rparr>) repoDir opts)))"

text \<open>
  Line 101, \<^verbatim>\<open>defer close(res)\<close>: the close runs when the function returns and when
  its own goroutine panics. It does not run when the worker's panic ends the process.
\<close>

definition defer_close :: "('g, 'b, 'm) RipRun \<Rightarrow> ('g, 'b, 'm) RipRun" where
  "defer_close run =
     (case exit run of
        Crashed p \<Rightarrow> run
      | _ \<Rightarrow> run\<lparr>closes := closes run + 1\<rparr>)"

definition Rip ::
  "('g, 'b, 'm, 'r) Env \<Rightarrow> ('g, 'b, 'm) Ripper \<Rightarrow> string \<Rightarrow> RipOpts option \<Rightarrow>
   ('g, 'b, 'm) RipRun" where
  "Rip env s repoDir opts = defer_close (Rip_body env s repoDir opts)"

subsection \<open>RipSlice (rip.go, lines 179-191)\<close>

text \<open>
  The collector goroutine appends what it receives from \<^verbatim>\<open>resChan\<close> until the channel is
  closed, then signals \<^verbatim>\<open>done\<close>; \<^verbatim>\<open>RipSlice\<close> returns after \<^verbatim>\<open>Rip\<close> has returned and
  \<^verbatim>\<open>done\<close> was received. With the channel never closed the receive from \<^verbatim>\<open>done\<close> blocks
  for ever; a panic inside \<^verbatim>\<open>Rip\<close> is not recovered. When the worker of \<^verbatim>\<open>Rip\<close> panics
  after \<^verbatim>\<open>Rip\<close> has returned, the scheduler decides whether the process ends before
  \<^verbatim>\<open>RipSlice\<close> returns.
\<close>

datatype slice_exit =
    SliceReturned "BlameResult list" "error option"
  | SlicePanicked panic_value
  | SliceBlocked

definition RipSlice ::
  "('g, 'b, 'm, 'r) Env \<Rightarrow> ('g, 'b, 'm) Ripper \<Rightarrow> string \<Rightarrow> RipOpts option \<Rightarrow> slice_exit" where
  "RipSlice env s repoDir opts =
     (let run = Rip env s repoDir opts
      in case exit run of
           Returned err \<Rightarrow>
             if closes run = 0 then SliceBlocked
             else
               (case aftermath run of
                  Some p \<Rightarrow>
                    if crash_first env then SlicePanicked p
                    else SliceReturned (delivered run) err
                | None \<Rightarrow> SliceReturned (delivered run) err)
         | Panicked e \<Rightarrow> SlicePanicked (PanicErr e)
         | Crashed p \<Rightarrow> SlicePanicked p)"

section \<open>ripcmd: discovery of repositories\<close>

subsection \<open>The file system as the code sees it\<close>

text \<open>
  A path is the list of its elements, so \<^verbatim>\<open>filepath.Join(dir, name)\<close> appends one
  element. \<^verbatim>\<open>os.Stat\<close> fails (the flag says whether \<^verbatim>\<open>os.IsNotExist\<close> holds of the
  error, the string is its text) or tells whether the path is a directory.
  \<^verbatim>\<open>ioutil.ReadDir\<close> fails or lists the entries by name, each with its \<^verbatim>\<open>IsDir()\<close>.
  \<^verbatim>\<open>filepath.Abs\<close> fails or gives the absolute path.
\<close>

type_synonym path = "string list"






subsection \<open>dirContainsDir (lines 243-256)\<close>


subsection \<open>runOnDirs (lines 164-241)\<close>

record Stats =
  Repos :: int
  SkippedEmptyRepos :: int
  Entries :: int

text \<open>The field \<^verbatim>\<open>Err\<close> of \<^verbatim>\<open>RepoError\<close> is \<open>RepoErr\<close> here.\<close>

record RepoError =
  Repo :: path
  RepoErr :: error

text \<open>
  The named results of \<^verbatim>\<open>runOnDirs\<close>, and \<open>ran\<close>: the directories on which
  \<^verbatim>\<open>runOnRepo\<close> was called, in the order of the calls.
\<close>

record DirsRun =
  stats :: Stats
  repoErrors :: "RepoError list"
  rerr :: "error option"
  ran :: "path list"

definition zero_DirsRun :: DirsRun where
  "zero_DirsRun =
     \<lparr>stats = \<lparr>Repos = 0, SkippedEmptyRepos = 0, Entries = 0\<rparr>,
      repoErrors = [], rerr = None, ran = []\<rparr>"


text \<open>
  The closure \<^verbatim>\<open>run\<close> (lines 180-191). \<^verbatim>\<open>runOnRepo\<close> processes one repository with
  \<^verbatim>\<open>Rip\<close>; here it is the function that gives, for a directory, the number of entries and
  the error the call returns.
\<close>

definition run :: "(path \<Rightarrow> int \<times> error option) \<Rightarrow> path \<Rightarrow> DirsRun" where
  "run runOnRepo dir =
     (case runOnRepo dir of
        (entries, err) \<Rightarrow>
          (case err of
             Some e \<Rightarrow>
               if e \<noteq> errRevParseFailed then
                 zero_DirsRun\<lparr>repoErrors := [\<lparr>Repo = dir, RepoErr = e\<rparr>], ran := [dir]\<rparr>
               else
                 zero_DirsRun
                   \<lparr>stats := \<lparr>Repos = 1, SkippedEmptyRepos = 1, Entries = entries\<rparr>,
                    ran := [dir]\<rparr>
           | None \<Rightarrow>
               zero_DirsRun
                 \<lparr>stats := \<lparr>Repos = 1, SkippedEmptyRepos = 0, Entries = entries\<rparr>,
                  ran := [dir]\<rparr>))"






subsection \<open>hasHeadCommit (lines 332-343)\<close>

text \<open>
  A Go string is its UTF-8 bytes. \<^verbatim>\<open>strings.TrimSpace\<close> removes the leading and the
  trailing runes that \<^verbatim>\<open>unicode.IsSpace\<close> accepts: tab, line feed, vertical tab, form
  feed, carriage return, space, U+0085, U+00A0, U+1680, U+2000 to U+200A, U+2028, U+2029,
  U+202F, U+205F and U+3000. \<open>space_runes\<close> lists their encodings; a byte sequence that
  is not a valid encoding decodes to the error rune, which is no space, so trimming
  stops there.
\<close>

definition space_runes :: "string list" where
  "space_runes =
     [[CHR 0x09], [CHR 0x0A], [CHR 0x0B], [CHR 0x0C], [CHR 0x0D], [CHR 0x20],
      [CHR 0xC2, CHR 0x85], [CHR 0xC2, CHR 0xA0], [CHR 0xE1, CHR 0x9A, CHR 0x80]]
     @ map (\<lambda>b. [CHR 0xE2, CHR 0x80, b])
         [CHR 0x80, CHR 0x81, CHR 0x82, CHR 0x83, CHR 0x84, CHR 0x85, CHR 0x86, CHR 0x87,
          CHR 0x88, CHR 0x89, CHR 0x8A, CHR 0xA8, CHR 0xA9, CHR 0xAF]
     @ [[CHR 0xE2, CHR 0x81, CHR 0x9F], [CHR 0xE3, CHR 0x80, CHR 0x80]]"

text \<open>
  The loop of \<^verbatim>\<open>TrimLeftFunc\<close>: as long as the text starts with one of the given byte
  sequences, that sequence is dropped.
\<close>

function trim_runes :: "string list \<Rightarrow> string \<Rightarrow> string" where
  "trim_runes rs s =
     (case find (\<lambda>r. r \<noteq> [] \<and> take (length r) s = r) rs of
        None \<Rightarrow> s
      | Some r \<Rightarrow> trim_runes rs (drop (length r) s))"
  by pat_completeness auto
termination
proof (relation "measure (\<lambda>(rs, s). length s)")
  show "wf (measure (\<lambda>(rs, s). length s))" by simp
next
  fix rs :: "string list" and s r :: string
  assume "find (\<lambda>r. r \<noteq> [] \<and> take (length r) s = r) rs = Some r"
  then have "r \<noteq> []" and t: "take (length r) s = r"
    by (auto simp: find_Some_iff)
  then have "s \<noteq> []" by auto
  with \<open>r \<noteq> []\<close> show "((rs, drop (length r) s), (rs, s)) \<in> measure (\<lambda>(rs, s). length s)"
    by (cases r) auto
qed

declare trim_runes.simps [simp del]

text \<open>
  \<^verbatim>\<open>TrimSpace\<close> trims on the left, then on the right; the right side is the left side of
  the reversed text with the reversed encodings.
\<close>

definition TrimSpace :: "string \<Rightarrow> string" where
  "TrimSpace s = rev (trim_runes (map rev space_runes) (rev (trim_runes space_runes s)))"

text \<open>
  The argument is what \<^verbatim>\<open>git rev-parse HEAD\<close> wrote on its standard output in the
  directory; the error of \<^verbatim>\<open>c.Run()\<close> is ignored by the code.
\<close>

definition hasHeadCommit :: "string \<Rightarrow> bool" where
  "hasHeadCommit out = (if length (TrimSpace out) \<noteq> 40 then False else True)"

subsection \<open>The rule of discovery, as stated\<close>









section \<open>The collaborators, modelled from the specification\<close>

text \<open>
  One repository as the tool shows it. \<open>headCommit\<close> is the commit that the head
  resolves to, if there is one; \<open>gitLog\<close> is the log-with-patches stream in the order of the
  tool, each record parsed (section 4.3 of the specification); \<open>blameAt\<close> is the
  authorship table of a file after the patch of a commit; \<open>branchesOf\<close> is the result of
  the branch attribution pass; \<open>fileinfo\<close> is the decoration of a file's content. The
  three faults and \<open>engineStop\<close> say which stage fails: the engine fails after it handed
  over that many results. \<open>scheduler\<close> and \<open>crashFirst\<close> are the choices of the
  scheduler.
\<close>

record FileChange =
  fc_status :: CommitStatus
  fc_renamedFrom :: "string option"
  fc_additions :: int
  fc_deletions :: int
  fc_binary :: bool

record LogCommit =
  lc_sha :: string
  lc_parents :: "string list"
  lc_files :: "(string \<times> FileChange) list"

record FileInfo =
  fi_Language :: string
  fi_Size :: int64
  fi_Loc :: int64
  fi_Sloc :: int64
  fi_Comments :: int64
  fi_Blanks :: int64
  fi_Complexity :: int64
  fi_WeightedComplexity :: float64
  fi_License :: "License option"

record World =
  headCommit :: "string option"
  gitLog :: "LogCommit list"
  blameAt :: "string \<Rightarrow> string \<Rightarrow> BlameLine list"
  branchesOf :: "string \<Rightarrow> string list"
  fileinfo :: "string \<Rightarrow> BlameLine list \<Rightarrow> FileInfo"
  graphFault :: "error option"
  branchesFault :: "error option"
  metaFault :: "error option"
  engineStop :: "(nat \<times> error) option"
  scheduler :: nat
  crashFirst :: bool

text \<open>
  The absent types at which the model is used: the graph is the list of each commit with
  its parents, the branches process is the table of attributed branches, the commit
  table holds the parsed records.
\<close>

type_synonym spec_Ripper =
  "((string \<times> string list) list, string \<Rightarrow> string list, LogCommit) Ripper"

text \<open>
  Modelled from the spec: \<^verbatim>\<open>gitexec.Prepare\<close>, which is not among the source files.
  Section 4.1: "\<^verbatim>\<open>prepare(repoDir)\<close> (fails with \<^verbatim>\<open>NoHead\<close> when there is no resolvable
  head)". \<^verbatim>\<open>NoHead\<close> is the error rip.go declares as \<^verbatim>\<open>ErrNoHeadCommit\<close>.
\<close>

definition spec_Prepare :: "World \<Rightarrow> string \<Rightarrow> string \<Rightarrow> error option" where
  "spec_Prepare w git repoDir =
     (case headCommit w of None \<Rightarrow> Some ErrNoHeadCommit | Some h \<Rightarrow> None)"

text \<open>
  Modelled from the spec: \<^verbatim>\<open>process.Result\<close> and \<^verbatim>\<open>process.Run\<close>, the history engine,
  which is not among the source files. Section 4.5: "For every commit, for every file in
  \<^verbatim>\<open>commit.files\<close>, emits exactly one \<^verbatim>\<open>BlameResult\<close> (even for \<^verbatim>\<open>Removed\<close> - the
  emission then carries \<^verbatim>\<open>lines = []\<close>)", "Emissions preserve the input's commit order;
  files within a commit are emitted in the order listed by the tool", "Binary files: no
  line table is maintained; emit with \<^verbatim>\<open>skipped = "binary"\<close> and \<^verbatim>\<open>lines = []\<close>". The walk
  over the hunks is not modelled: its result is \<open>blameAt\<close>.
\<close>

record Emission =
  em_Filename :: string
  em_Lines :: "BlameLine list"
  em_Skipped :: string
  em_Status :: CommitStatus

record process_Result =
  pr_Commit :: string
  pr_Emissions :: "Emission list"

text \<open>
  Modelled from the spec: the emission of the engine (absent \<^verbatim>\<open>process\<close> package) for one
  file of a commit, section 4.5: a removed file and a binary file carry no lines, a
  binary file is marked as skipped.
\<close>

definition engine_file :: "World \<Rightarrow> string \<Rightarrow> string \<times> FileChange \<Rightarrow> Emission" where
  "engine_file w sha pf =
     (case pf of
        (p, fc) \<Rightarrow>
          \<lparr>em_Filename = p,
           em_Lines = (if fc_status fc = GitFileCommitStatusRemoved \<or> fc_binary fc then []
                       else blameAt w sha p),
           em_Skipped = (if fc_binary fc then ''binary'' else []),
           em_Status = fc_status fc\<rparr>)"

text \<open>
  Modelled from the spec: the result of the engine (absent \<^verbatim>\<open>process\<close> package) for one
  commit, section 4.5: one emission per file of the commit, in the order listed.
\<close>

definition engine_commit :: "World \<Rightarrow> LogCommit \<Rightarrow> process_Result" where
  "engine_commit w c =
     \<lparr>pr_Commit = lc_sha c, pr_Emissions = map (engine_file w (lc_sha c)) (lc_files c)\<rparr>"

text \<open>
  Modelled from the spec: \<^verbatim>\<open>process.Run\<close> (absent), section 4.5: one result per commit
  of the stream, in the order of the stream, up to the point where the engine fails.
\<close>

definition spec_process_Run :: "World \<Rightarrow> process_Opts \<Rightarrow> process_Result list \<times> error option" where
  "spec_process_Run w po =
     (case engineStop w of
        None \<Rightarrow> (map (engine_commit w) (gitLog w), None)
      | Some (n, err) \<Rightarrow> (take n (map (engine_commit w) (gitLog w)), Some err))"

text \<open>
  Modelled from the spec: \<^verbatim>\<open>getCommitInfo\<close>, which is not among the source files.
  Section 4.3: CommitMeta "parses each RawCommitRecord into a \<^verbatim>\<open>Commit\<close> minus
  \<^verbatim>\<open>branches\<close>"; the table is keyed by the sha.
\<close>

definition spec_getCommitInfo ::
  "World \<Rightarrow> spec_Ripper \<Rightarrow> string \<Rightarrow> RipOpts \<Rightarrow> error + (string \<rightharpoonup> LogCommit)" where
  "spec_getCommitInfo w s repoDir opts =
     (case metaFault w of
        Some err \<Rightarrow> Inl err
      | None \<Rightarrow> Inr (map_of (map (\<lambda>c. (lc_sha c, c)) (gitLog w))))"

text \<open>
  Modelled from the spec: \<^verbatim>\<open>codeInfoFiles\<close>, which is not among the source files.
  Section 4.6: the decorator computes, for each emission with non-empty lines, language,
  license and totals, and is stateless; section 3: the commit's \<^verbatim>\<open>branches\<close> are "empty
  when branch attribution disabled". One record per emission, in the order of the
  emissions. A result whose commit is not in the table is the error of the method.
\<close>

text \<open>
  Modelled from the spec: the decoration (absent \<^verbatim>\<open>fileinfo\<close> package) of an emission
  without lines, section 4.6: nothing is computed.
\<close>

definition zero_FileInfo :: FileInfo where
  "zero_FileInfo =
     \<lparr>fi_Language = [], fi_Size = 0, fi_Loc = 0, fi_Sloc = 0, fi_Comments = 0,
      fi_Blanks = 0, fi_Complexity = 0, fi_WeightedComplexity = 0, fi_License = None\<rparr>"

text \<open>
  Modelled from the spec: the decoration of one emission (absent, part of
  \<^verbatim>\<open>codeInfoFiles\<close>), sections 3 and 4.6: the record of the commit with its branches, the
  emission's file name, lines, status and skip reason, and the computed file information.
\<close>

definition codeInfoFile :: "World \<Rightarrow> spec_Ripper \<Rightarrow> LogCommit \<Rightarrow> Emission \<Rightarrow> BlameResult" where
  "codeInfoFile w s c e =
     (let info = (if em_Lines e = [] then zero_FileInfo
                  else fileinfo w (em_Filename e) (em_Lines e))
      in \<lparr>Commit =
             \<lparr>SHA = lc_sha c,
              Files = map (\<lambda>pf. (fst pf, fc_status (snd pf))) (lc_files c),
              Branches = (case branches s of None \<Rightarrow> [] | Some tbl \<Rightarrow> tbl (lc_sha c))\<rparr>,
           Language = fi_Language info,
           Filename = em_Filename e,
           Lines = em_Lines e,
           Size = fi_Size info,
           Loc = fi_Loc info,
           Sloc = fi_Sloc info,
           Comments = fi_Comments info,
           Blanks = fi_Blanks info,
           Complexity = fi_Complexity info,
           WeightedComplexity = fi_WeightedComplexity info,
           Skipped = em_Skipped e,
           License = fi_License info,
           Status = em_Status e\<rparr>)"

text \<open>
  Modelled from the spec: \<^verbatim>\<open>codeInfoFiles\<close> (absent), section 4.6: one decorated record
  per emission of the result, in their order; the commit is looked up in the table of
  \<^verbatim>\<open>getCommitInfo\<close>.
\<close>

definition spec_codeInfoFiles ::
  "World \<Rightarrow> spec_Ripper \<Rightarrow> process_Result \<Rightarrow> RipOpts \<Rightarrow> error + BlameResult list" where
  "spec_codeInfoFiles w s r opts =
     (case commitMeta s (pr_Commit r) of
        None \<Rightarrow> Inl (Err ''commit not found'')
      | Some c \<Rightarrow> Inr (map (codeInfoFile w s c) (pr_Emissions r)))"

text \<open>
  Modelled from the spec: the collaborators of \<^verbatim>\<open>Rip\<close> for a world. The reading of the
  parents graph and the branch attribution pass, which are not among the source files,
  each fail with the world's fault or yield their result: the graph as the list of each
  commit with its parents, and the table of branches.
\<close>

definition spec_env ::
  "World \<Rightarrow>
   ((string \<times> string list) list, string \<Rightarrow> string list, LogCommit, process_Result) Env" where
  "spec_env w =
     \<lparr>gitexec_Prepare = spec_Prepare w,
      parentsgraph_New = (\<lambda>go. []),
      parentsgraph_Read =
        (\<lambda>g. case graphFault w of
                Some err \<Rightarrow> Inl err
              | None \<Rightarrow> Inr (map (\<lambda>c. (lc_sha c, lc_parents c)) (gitLog w))),
      branches_New = (\<lambda>bo. (\<lambda>sha. [])),
      branches_Run =
        (\<lambda>b. case branchesFault w of
                Some err \<Rightarrow> Inl err
              | None \<Rightarrow> Inr (branchesOf w)),
      getCommitInfo = spec_getCommitInfo w,
      process_Run = spec_process_Run w,
      codeInfoFiles = spec_codeInfoFiles w,
      sched = scheduler w,
      crash_first = crashFirst w\<rparr>"

text \<open>
  The keys of all emissions of a log, the commit table of a world, and the complete
  sequence of decorated records of its log: the terms in which the emissions of a run are
  described.
\<close>

definition log_keys :: "LogCommit list \<Rightarrow> (string \<times> string) list" where
  "log_keys cs = concat (map (\<lambda>c. map (\<lambda>pf. (lc_sha c, fst pf)) (lc_files c)) cs)"

definition table :: "World \<Rightarrow> string \<rightharpoonup> LogCommit" where
  "table w = map_of (map (\<lambda>c. (lc_sha c, c)) (gitLog w))"

definition full :: "World \<Rightarrow> spec_Ripper \<Rightarrow> BlameResult list" where
  "full w s =
     concat (map (\<lambda>c. map (\<lambda>pf. codeInfoFile w s c (engine_file w (lc_sha c) pf)) (lc_files c))
                 (gitLog w))"

section \<open>Example inputs\<close>

text \<open>
  Collaborators over the one-element types: every stage succeeds and the engine hands
  over two results, decorated to one and two records.
\<close>

definition example_record :: "string \<Rightarrow> string \<Rightarrow> BlameResult" where
  "example_record sha name =
     \<lparr>Commit = \<lparr>SHA = sha, Files = [(name, GitFileCommitStatusAdded)], Branches = []\<rparr>,
      Language = ''Go'', Filename = name, Lines = [], Size = 0, Loc = 0, Sloc = 0,
      Comments = 0, Blanks = 0, Complexity = 0, WeightedComplexity = 0, Skipped = [],
      License = None, Status = GitFileCommitStatusAdded\<rparr>"

definition example_env :: "(unit, unit, unit, nat) Env" where
  "example_env =
     \<lparr>gitexec_Prepare = (\<lambda>git dir. None),
      parentsgraph_New = (\<lambda>x. ()),
      parentsgraph_Read = (\<lambda>g. Inr ()),
      branches_New = (\<lambda>x. ()),
      branches_Run = (\<lambda>b. Inr ()),
      getCommitInfo = (\<lambda>s dir opts. Inr Map.empty),
      process_Run = (\<lambda>po. ([0, 1], None)),
      codeInfoFiles =
        (\<lambda>s r opts.
           if r = 0 then Inr [example_record ''c0'' ''a.go'']
           else Inr [example_record ''c1'' ''a.go'', example_record ''c1'' ''b.go'']),
      sched = 0,
      crash_first = False\<rparr>"

text \<open>The same with a failing pre-flight, a failing engine, a failing
  \<^verbatim>\<open>getCommitInfo\<close> and a failing \<^verbatim>\<open>codeInfoFiles\<close>.\<close>

definition example_env_prepare_fails :: "(unit, unit, unit, nat) Env" where
  "example_env_prepare_fails =
     example_env\<lparr>gitexec_Prepare := (\<lambda>git dir. Some (Err ''git gc failed''))\<rparr>"

definition example_env_engine_fails :: "(unit, unit, unit, nat) Env" where
  "example_env_engine_fails =
     example_env\<lparr>process_Run := (\<lambda>po. ([0, 1], Some (Err ''patch apply failed''))), sched := 2\<rparr>"

text \<open>The failing engine, with the process ending on the worker's panic before the
  caller of \<^verbatim>\<open>Rip\<close> goes on.\<close>

definition example_env_engine_fails_crash :: "(unit, unit, unit, nat) Env" where
  "example_env_engine_fails_crash = example_env_engine_fails\<lparr>crash_first := True\<rparr>"

definition example_env_meta_fails :: "(unit, unit, unit, nat) Env" where
  "example_env_meta_fails =
     example_env\<lparr>getCommitInfo := (\<lambda>s dir opts. Inl (Err ''git log failed''))\<rparr>"

definition example_env_decoration_fails :: "(unit, unit, unit, nat) Env" where
  "example_env_decoration_fails =
     example_env
       \<lparr>codeInfoFiles :=
          (\<lambda>s r opts.
             if r = 0 then Inr [example_record ''c0'' ''a.go'']
             else Inl (Err ''commit not found''))\<rparr>"

text \<open>
  A world with two commits: the first adds two files, the second modifies one and removes
  the other.
\<close>

definition example_sha1 :: string where
  "example_sha1 = ''6405a003b50894ad5bcfb0252eff8d4719ee15ef''"

definition example_sha2 :: string where
  "example_sha2 = ''8fd2147e148b5875c9765a7c1a3e245f8f6387b1''"

definition example_change :: "CommitStatus \<Rightarrow> FileChange" where
  "example_change st =
     \<lparr>fc_status = st, fc_renamedFrom = None, fc_additions = 1, fc_deletions = 0,
      fc_binary = False\<rparr>"

definition example_commit1 :: LogCommit where
  "example_commit1 =
     \<lparr>lc_sha = example_sha1, lc_parents = [],
      lc_files = [(''a.go'', example_change GitFileCommitStatusAdded),
                  (''b.txt'', example_change GitFileCommitStatusAdded)]\<rparr>"

definition example_commit2 :: LogCommit where
  "example_commit2 =
     \<lparr>lc_sha = example_sha2, lc_parents = [example_sha1],
      lc_files = [(''a.go'', example_change GitFileCommitStatusModified),
                  (''b.txt'', example_change GitFileCommitStatusRemoved)]\<rparr>"

definition example_line :: BlameLine where
  "example_line =
     \<lparr>Name = ''dev'', Email = ''dev@example.com'', Date = 0, Comment = False,
      Code = True, Blank = False\<rparr>"

definition example_world :: World where
  "example_world =
     \<lparr>headCommit = Some example_sha2,
      gitLog = [example_commit1, example_commit2],
      blameAt = (\<lambda>sha p. [example_line]),
      branchesOf = (\<lambda>sha. [''master'']),
      fileinfo = (\<lambda>p ls. zero_FileInfo),
      graphFault = None, branchesFault = None, metaFault = None,
      engineStop = None, scheduler = 0, crashFirst = False\<rparr>"

text \<open>
  The same world with an engine that fails after it handed over both commits, the
  deferred close running after the worker's first send for the second commit.
\<close>

definition example_world_engine_fails :: World where
  "example_world_engine_fails =
     example_world\<lparr>engineStop := Some (2, Err ''patch apply failed''), scheduler := 2\<rparr>"





section \<open>Properties of Rip and RipSlice\<close>

subsection \<open>The deferred close\<close>

lemma race_closes: "closes (race f r out k err s) = 0"
  by (simp add: race_def split: sum.splits)

lemma pipeline_closes: "closes (pipeline env s d opts) = 0"
  by (simp add: pipeline_def Let_def race_closes split: prod.splits option.splits)

lemma Rip_body_closes: "closes (Rip_body env s d opts) = 0"
  by (simp add: Rip_body_def Let_def ret_def pipeline_closes
           split: option.splits sum.splits prod.splits)

lemma Rip_closes:
  "closes (Rip env s d opts) = (case exit (Rip env s d opts) of Crashed p \<Rightarrow> 0 | _ \<Rightarrow> 1)"
  by (simp add: Rip_def defer_close_def Rip_body_closes split: exit.splits)

lemma Rip_delivered: "delivered (Rip env s d opts) = delivered (Rip_body env s d opts)"
  and Rip_exit: "exit (Rip env s d opts) = exit (Rip_body env s d opts)"
  by (simp_all add: Rip_def defer_close_def split: exit.splits)

text \<open>Evaluation of the example runs.\<close>

lemmas Rip_eval =
  Rip_def defer_close_def Rip_body_def effective_opts_def zero_RipOpts_def
  read_graph_and_branches_def pipeline_def processOpts_of_def New_def gitCommand_def ret_def

lemma example_run_exit: "exit (Rip example_env New ''repo'' None) = Returned None"
  by (simp add: Rip_eval example_env_def)

lemma example_run_keys:
  "map emission_key (delivered (Rip example_env New ''repo'' None)) =
     [(''c0'', ''a.go''), (''c1'', ''a.go''), (''c1'', ''b.go'')]"
  by (simp add: Rip_eval example_env_def emission_key_def example_record_def)

lemma example_engine_fails_exit:
  "exit (Rip example_env_engine_fails New ''repo'' None) =
     Returned (Some (Err ''patch apply failed''))"
  by (simp add: Rip_eval example_env_engine_fails_def example_env_def race_def)

lemma example_engine_fails_keys:
  "map emission_key (delivered (Rip example_env_engine_fails New ''repo'' None)) =
     [(''c0'', ''a.go''), (''c1'', ''a.go'')]"
  by (simp add: Rip_eval example_env_engine_fails_def example_env_def race_def
        emission_key_def example_record_def)

lemma example_prepare_fails_exit:
  "exit (Rip example_env_prepare_fails New ''repo'' None) =
     Returned (Some (Err ''git gc failed''))"
  by (simp add: Rip_eval example_env_prepare_fails_def example_env_def)

text \<open>
  C4. On every call of \<^verbatim>\<open>Rip\<close> the result channel is closed exactly once before
  \<^verbatim>\<open>Rip\<close> returns, whether it returns nil or an error; the same holds when the call
  leaves by the panic of line 140. (When the worker goroutine panics, the process ends
  and \<^verbatim>\<open>Rip\<close> does not return.)
\<close>

theorem Rip_closes_sink_once:
  "(\<forall>e. exit (Rip env s repoDir opts) = Returned e \<longrightarrow> closes (Rip env s repoDir opts) = 1) \<and>
   (\<forall>e. exit (Rip env s repoDir opts) = Panicked e \<longrightarrow> closes (Rip env s repoDir opts) = 1)"
  by (simp add: Rip_closes)

theorem Rip_closes_sink_once_witness:
  "exit (Rip example_env New ''repo'' None) = Returned None \<and>
   closes (Rip example_env New ''repo'' None) = 1 \<and>
   exit (Rip example_env_prepare_fails New ''repo'' None) = Returned (Some (Err ''git gc failed'')) \<and>
   closes (Rip example_env_prepare_fails New ''repo'' None) = 1 \<and>
   exit (Rip example_env_engine_fails New ''repo'' None) =
     Returned (Some (Err ''patch apply failed'')) \<and>
   closes (Rip example_env_engine_fails New ''repo'' None) = 1"
  using Rip_closes_sink_once [of example_env New "''repo''" None]
    Rip_closes_sink_once [of example_env_prepare_fails New "''repo''" None]
    Rip_closes_sink_once [of example_env_engine_fails New "''repo''" None]
    example_run_exit example_prepare_fails_exit example_engine_fails_exit
  by simp

subsection \<open>Errors that are not returned\<close>

text \<open>
  C2. Every non-soft error met during a call of \<^verbatim>\<open>Rip\<close> should be returned by
  \<^verbatim>\<open>Rip\<close>. The code does not do so for \<^verbatim>\<open>getCommitInfo\<close>: whenever the stages before
  it succeed and it fails with \<open>err\<close>, the call ends in \<^verbatim>\<open>panic(err)\<close> and returns no
  error value at all.
\<close>

theorem Rip_panics_on_getCommitInfo_error:
  assumes "gitexec_Prepare env gitCommand repoDir = None"
    and "read_graph_and_branches env s repoDir (effective_opts opts) = Inr s3"
    and "getCommitInfo env s3 repoDir (effective_opts opts) = Inl err"
  shows "exit (Rip env s repoDir opts) = Panicked err \<and>
         (\<forall>e. exit (Rip env s repoDir opts) \<noteq> Returned e)"
  using assms by (simp add: Rip_exit Rip_body_def)

theorem Rip_panics_on_getCommitInfo_error_witness:
  "exit (Rip example_env_meta_fails New ''repo'' None) = Panicked (Err ''git log failed'') \<and>
   exit (Rip example_env_meta_fails New ''repo'' None) \<noteq> Returned (Some (Err ''git log failed''))"
proof -
  have p: "gitexec_Prepare example_env_meta_fails gitCommand ''repo'' = None"
    by (simp add: example_env_meta_fails_def example_env_def)
  have g: "read_graph_and_branches example_env_meta_fails New ''repo'' (effective_opts None) =
             Inr (New\<lparr>parentsGraph := Some ()\<rparr>)"
    by (simp add: read_graph_and_branches_def effective_opts_def zero_RipOpts_def
          example_env_meta_fails_def example_env_def)
  have m: "getCommitInfo example_env_meta_fails (New\<lparr>parentsGraph := Some ()\<rparr>) ''repo''
             (effective_opts None) = Inl (Err ''git log failed'')"
    by (simp add: example_env_meta_fails_def example_env_def)
  from Rip_panics_on_getCommitInfo_error [OF p g m] show ?thesis by simp
qed

text \<open>
  The error of \<^verbatim>\<open>codeInfoFiles\<close> is not returned either: the worker panics with it,
  the process ends, and the channel is left open with the records sent so far.
\<close>

lemma Rip_crashes_on_codeInfoFiles_error:
  "exit (Rip example_env_decoration_fails New ''repo'' None) =
     Crashed (PanicErr (Err ''commit not found'')) \<and>
   closes (Rip example_env_decoration_fails New ''repo'' None) = 0 \<and>
   map emission_key (delivered (Rip example_env_decoration_fails New ''repo'' None)) =
     [(''c0'', ''a.go'')]"
  by (simp add: Rip_eval example_env_decoration_fails_def example_env_def
        emission_key_def example_record_def)

text \<open>
  The other errors are returned. An error of \<^verbatim>\<open>gitexec.Prepare\<close> is returned before
  any other stage runs: nothing is delivered and the channel is closed.
\<close>

lemma Rip_returns_preflight_error:
  assumes "gitexec_Prepare env gitCommand repoDir = Some err"
  shows "exit (Rip env s repoDir opts) = Returned (Some err) \<and>
         delivered (Rip env s repoDir opts) = [] \<and>
         closes (Rip env s repoDir opts) = 1"
  using assms by (simp add: Rip_def defer_close_def Rip_body_def ret_def)

subsection \<open>RipSlice\<close>

text \<open>
  When \<^verbatim>\<open>RipSlice\<close> returns: it returns a slice and an error iff \<^verbatim>\<open>Rip\<close> returns that
  error after delivering that sequence and no panic of the worker ends the process first.
\<close>

lemma RipSlice_returned_iff:
  "RipSlice env s repoDir opts = SliceReturned xs e \<longleftrightarrow>
     (exit (Rip env s repoDir opts) = Returned e \<and> delivered (Rip env s repoDir opts) = xs \<and>
      (aftermath (Rip env s repoDir opts) = None \<or> \<not> crash_first env))"
  using Rip_closes [of env s repoDir opts]
  by (auto simp: RipSlice_def Let_def split: exit.splits option.splits)

lemma RipSlice_returned_examples:
  "RipSlice example_env_engine_fails New ''repo'' None =
     SliceReturned (delivered (Rip example_env_engine_fails New ''repo'' None))
       (Some (Err ''patch apply failed'')) \<and>
   map emission_key (delivered (Rip example_env_engine_fails New ''repo'' None)) =
     [(''c0'', ''a.go''), (''c1'', ''a.go'')] \<and>
   RipSlice example_env New ''repo'' None =
     SliceReturned (delivered (Rip example_env New ''repo'' None)) None \<and>
   map emission_key (delivered (Rip example_env New ''repo'' None)) =
     [(''c0'', ''a.go''), (''c1'', ''a.go''), (''c1'', ''b.go'')]"
proof -
  have c1: "\<not> crash_first example_env_engine_fails"
    and c2: "\<not> crash_first example_env"
    by (simp_all add: example_env_engine_fails_def example_env_def)
  from RipSlice_returned_iff
         [of example_env_engine_fails New "''repo''" None
             "delivered (Rip example_env_engine_fails New ''repo'' None)"
             "Some (Err ''patch apply failed'')"]
       example_engine_fails_exit c1
  have "RipSlice example_env_engine_fails New ''repo'' None =
          SliceReturned (delivered (Rip example_env_engine_fails New ''repo'' None))
            (Some (Err ''patch apply failed''))"
    by simp
  moreover
  from RipSlice_returned_iff
         [of example_env New "''repo''" None "delivered (Rip example_env New ''repo'' None)" None]
       example_run_exit c2
  have "RipSlice example_env New ''repo'' None =
          SliceReturned (delivered (Rip example_env New ''repo'' None)) None"
    by simp
  ultimately show ?thesis
    using example_engine_fails_keys example_run_keys by simp
qed

text \<open>
  C10. For every repository and options, \<^verbatim>\<open>RipSlice\<close> returns exactly the sequence of
  records that \<^verbatim>\<open>Rip\<close> delivers to its channel for the same arguments, in the same
  order, and the error value that \<^verbatim>\<open>Rip\<close> returns. The code departs from this when
  \<^verbatim>\<open>gitProcessor.Run\<close> fails: \<^verbatim>\<open>Rip\<close> returns the error at line 169 without waiting
  for its worker, the deferred close runs, and the worker, still forwarding the records of
  the last result, sends on the closed channel. \<^verbatim>\<open>Rip\<close> has returned an error after
  delivering a sequence, and \<^verbatim>\<open>RipSlice\<close> returns nothing: the panic ends the process.
\<close>

theorem RipSlice_panics_after_Rip_returned:
  assumes "gitexec_Prepare env gitCommand repoDir = None"
    and "read_graph_and_branches env s repoDir (effective_opts opts) = Inr s3"
    and "getCommitInfo env s3 repoDir (effective_opts opts) = Inr m"
    and "process_Run env (processOpts_of repoDir (effective_opts opts)) = (results, Some err)"
    and "results \<noteq> []"
    and "worker (\<lambda>r1. codeInfoFiles env (s3\<lparr>commitMeta := m\<rparr>) r1 (effective_opts opts))
           (butlast results) [] = (None, out)"
    and "codeInfoFiles env (s3\<lparr>commitMeta := m\<rparr>) (last results) (effective_opts opts) = Inr rs"
    and "sched env = Suc k" and "k < length rs" and "crash_first env"
  shows "exit (Rip env s repoDir opts) = Returned (Some err) \<and>
         delivered (Rip env s repoDir opts) = out @ take k rs \<and>
         closes (Rip env s repoDir opts) = 1 \<and>
         RipSlice env s repoDir opts = SlicePanicked SendOnClosedChannel"
proof -
  have b: "Rip_body env s repoDir opts =
             \<lparr>exit = Returned (Some err), delivered = out @ take k rs, closes = 0,
              aftermath = Some SendOnClosedChannel, ripper = s3\<lparr>commitMeta := m\<rparr>\<rparr>"
    using assms by (simp add: Rip_body_def pipeline_def race_def Let_def)
  then have r: "Rip env s repoDir opts =
             \<lparr>exit = Returned (Some err), delivered = out @ take k rs, closes = 1,
              aftermath = Some SendOnClosedChannel, ripper = s3\<lparr>commitMeta := m\<rparr>\<rparr>"
    by (simp add: Rip_def defer_close_def)
  show ?thesis using assms(10) by (simp add: RipSlice_def r)
qed

theorem RipSlice_panics_after_Rip_returned_witness:
  "exit (Rip example_env_engine_fails_crash New ''repo'' None) =
     Returned (Some (Err ''patch apply failed'')) \<and>
   map emission_key (delivered (Rip example_env_engine_fails_crash New ''repo'' None)) =
     [(''c0'', ''a.go''), (''c1'', ''a.go'')] \<and>
   closes (Rip example_env_engine_fails_crash New ''repo'' None) = 1 \<and>
   RipSlice example_env_engine_fails_crash New ''repo'' None =
     SlicePanicked SendOnClosedChannel"
  using RipSlice_panics_after_Rip_returned
    [of example_env_engine_fails_crash "''repo''" New None
        "New\<lparr>parentsGraph := Some ()\<rparr>" "commitMeta New"
        "[0, 1]" "Err ''patch apply failed''"
        "[example_record ''c0'' ''a.go'']"
        "[example_record ''c1'' ''a.go'', example_record ''c1'' ''b.go'']" 1]
  by (simp add: example_env_engine_fails_crash_def example_env_engine_fails_def example_env_def
        read_graph_and_branches_def effective_opts_def zero_RipOpts_def New_def
        emission_key_def example_record_def)

subsection \<open>What the worker forwards\<close>

lemma worker_acc:
  "worker f rs out = (fst (worker f rs []), out @ snd (worker f rs []))"
proof (induction rs arbitrary: out)
  case Nil
  show ?case by simp
next
  case (Cons r rs)
  show ?case
  proof (cases "f r")
    case (Inl e)
    then show ?thesis by simp
  next
    case (Inr bs)
    from Cons [of "out @ bs"] Cons [of bs] Inr show ?thesis by simp
  qed
qed

lemma batch_Inr: "f r = Inr bs \<Longrightarrow> batch f r = bs"
  and batch_Inl: "f r = Inl e \<Longrightarrow> batch f r = []"
  by (simp_all add: batch_def)

lemma worker_prefix: "\<exists>zs. concat (map (batch f) rs) = snd (worker f rs []) @ zs"
proof (induction rs)
  case Nil
  show ?case by simp
next
  case (Cons r rs)
  show ?case
  proof (cases "f r")
    case (Inl e)
    then show ?thesis by simp
  next
    case (Inr bs)
    from Cons obtain zs where "concat (map (batch f) rs) = snd (worker f rs []) @ zs" by blast
    with Inr worker_acc [of f rs bs] show ?thesis by (simp add: batch_Inr)
  qed
qed

lemma worker_full:
  "fst (worker f rs []) = None \<Longrightarrow> snd (worker f rs []) = concat (map (batch f) rs)"
proof (induction rs)
  case Nil
  show ?case by simp
next
  case (Cons r rs)
  show ?case
  proof (cases "f r")
    case (Inl e)
    with Cons.prems show ?thesis by simp
  next
    case (Inr bs)
    with Cons.prems worker_acc [of f rs bs] have "fst (worker f rs []) = None" by simp
    with Cons.IH Inr worker_acc [of f rs bs] show ?thesis by (simp add: batch_Inr)
  qed
qed

lemma race_prefix: "\<exists>zs. out @ batch f r = delivered (race f r out k err s) @ zs"
proof (cases "f r")
  case (Inl e)
  then show ?thesis by (simp add: race_def batch_Inl)
next
  case (Inr bs)
  have "bs = take (k - 1) bs @ drop (k - 1) bs" by simp
  then have "\<exists>zs. bs = take (k - 1) bs @ zs" by blast
  with Inr show ?thesis by (auto simp: race_def batch_Inr)
qed

lemma pipeline_prefix:
  "\<exists>zs. concat (map (batch (\<lambda>r. codeInfoFiles env s r opts))
                  (fst (process_Run env (processOpts_of d opts))))
        = delivered (pipeline env s d opts) @ zs"
proof -
  define f where "f = (\<lambda>r. codeInfoFiles env s r opts)"
  obtain results oerr where pr: "process_Run env (processOpts_of d opts) = (results, oerr)"
    by (cases "process_Run env (processOpts_of d opts)")
  obtain we out where wk: "worker f results [] = (we, out)" by (cases "worker f results []")
  obtain we' out' where wk': "worker f (butlast results) [] = (we', out')"
    by (cases "worker f (butlast results) []")
  from worker_prefix [of f results] wk
  obtain zs where z: "concat (map (batch f) results) = out @ zs" by auto
  from worker_prefix [of f "butlast results"] wk'
  obtain zs' where z': "concat (map (batch f) (butlast results)) = out' @ zs'" by auto
  show ?thesis
  proof (cases oerr)
    case None
    with pr wk z show ?thesis
      by (cases we) (auto simp: pipeline_def f_def [symmetric])
  next
    case (Some err)
    show ?thesis
    proof (cases "results = []")
      case True
      with pr Some show ?thesis by (simp add: pipeline_def)
    next
      case False
      then have split: "results = butlast results @ [last results]" by simp
      have full: "concat (map (batch f) results) =
                    concat (map (batch f) (butlast results)) @ batch f (last results)"
        by (subst split) simp
      show ?thesis
      proof (cases we')
        case (Some e)
        with pr \<open>oerr = Some err\<close> False wk' z' full show ?thesis
          by (auto simp: pipeline_def f_def [symmetric])
      next
        case None
        with wk' worker_full [of f "butlast results"]
        have o: "out' = concat (map (batch f) (butlast results))" by simp
        from race_prefix [of out' f "last results" "sched env" err s]
        obtain ys where "out' @ batch f (last results) =
                          delivered (race f (last results) out' (sched env) err s) @ ys"
          by blast
        with pr \<open>oerr = Some err\<close> False wk' None o full show ?thesis
          by (auto simp: pipeline_def f_def [symmetric])
      qed
    qed
  qed
qed

lemma race_not_success: "exit (race f r out k err s) \<noteq> Returned None"
  by (simp add: race_def split: sum.splits)

lemma pipeline_success:
  assumes "exit (pipeline env s d opts) = Returned None"
  shows "delivered (pipeline env s d opts) =
           concat (map (batch (\<lambda>r. codeInfoFiles env s r opts))
                       (fst (process_Run env (processOpts_of d opts))))
         \<and> snd (process_Run env (processOpts_of d opts)) = None"
proof -
  define f where "f = (\<lambda>r. codeInfoFiles env s r opts)"
  obtain results oerr where pr: "process_Run env (processOpts_of d opts) = (results, oerr)"
    by (cases "process_Run env (processOpts_of d opts)")
  obtain we out where wk: "worker f results [] = (we, out)" by (cases "worker f results []")
  from assms pr have "oerr = None"
    by (auto simp: pipeline_def f_def [symmetric] race_not_success
             split: option.splits prod.splits if_splits)
  with assms pr wk have "we = None" and "delivered (pipeline env s d opts) = out"
    by (auto simp: pipeline_def f_def [symmetric] split: option.splits)
  with wk worker_full [of f results] pr \<open>oerr = None\<close> show ?thesis
    by (simp add: f_def)
qed

lemma Rip_body_cases:
  "(delivered (Rip_body env s d opts) = [] \<and> exit (Rip_body env s d opts) \<noteq> Returned None) \<or>
   (\<exists>s3 m. gitexec_Prepare env gitCommand d = None \<and>
            read_graph_and_branches env s d (effective_opts opts) = Inr s3 \<and>
            getCommitInfo env s3 d (effective_opts opts) = Inr m \<and>
            Rip_body env s d opts = pipeline env (s3\<lparr>commitMeta := m\<rparr>) d (effective_opts opts))"
  by (auto simp: Rip_body_def ret_def Let_def split: option.splits sum.splits prod.splits)

section \<open>Properties of the discovery\<close>

text \<open>
  \<^verbatim>\<open>hasHeadCommit\<close> on what \<^verbatim>\<open>git rev-parse HEAD\<close> prints: a hash and a line feed with
  a head commit, the word \<^verbatim>\<open>HEAD\<close> without one. White space beyond ASCII is trimmed
  as well (here U+2003 in front, U+00A0 behind); bytes that only begin the encoding of
  such a rune are kept.
\<close>

lemma hasHeadCommit_hash:
  "hasHeadCommit (''8fd2147e148b5875c9765a7c1a3e245f8f6387b1'' @ [CHR 0x0A])"
  by code_simp

lemma hasHeadCommit_no_head: "\<not> hasHeadCommit (''HEAD'' @ [CHR 0x0A])"
  by code_simp

lemma hasHeadCommit_unicode_space:
  "hasHeadCommit ([CHR 0x20, CHR 0xE2, CHR 0x80, CHR 0x83]
                  @ ''8fd2147e148b5875c9765a7c1a3e245f8f6387b1''
                  @ [CHR 0xC2, CHR 0xA0, CHR 0x0D, CHR 0x0A])"
  by code_simp

lemma TrimSpace_keeps_incomplete_rune:
  "TrimSpace [CHR 0x20, CHR 0xE2, CHR 0x80, CHR 0x61, CHR 0x20] = [CHR 0xE2, CHR 0x80, CHR 0x61]"
  by code_simp














































section \<open>Properties over the modelled collaborators\<close>

lemma set_log_keys:
  "set (log_keys cs) = (\<Union>c \<in> set cs. (\<lambda>pf. (lc_sha c, fst pf)) ` set (lc_files c))"
  by (simp add: log_keys_def)

lemma distinct_log_keys:
  "distinct (map lc_sha cs) \<Longrightarrow> \<forall>c \<in> set cs. distinct (map fst (lc_files c)) \<Longrightarrow>
   distinct (log_keys cs)"
proof (induction cs)
  case Nil
  show ?case by (simp add: log_keys_def)
next
  case (Cons c cs)
  have here: "distinct (map (\<lambda>pf. (lc_sha c, fst pf)) (lc_files c))"
    using Cons.prems(2) by (simp add: distinct_map inj_on_def)
  have rest: "distinct (log_keys cs)" using Cons by simp
  have "set (map (\<lambda>pf. (lc_sha c, fst pf)) (lc_files c)) \<inter> set (log_keys cs) = {}"
    using Cons.prems(1) by (force simp: set_log_keys)
  with here rest show ?case
    using distinct_append [of "map (\<lambda>pf. (lc_sha c, fst pf)) (lc_files c)" "log_keys cs"]
    by (simp add: log_keys_def)
qed

lemma key_codeInfoFile:
  "emission_key (codeInfoFile w s c (engine_file w sha pf)) = (lc_sha c, fst pf)"
  by (cases pf) (simp add: emission_key_def codeInfoFile_def engine_file_def Let_def)

lemma table_lookup:
  "distinct (map lc_sha (gitLog w)) \<Longrightarrow> c \<in> set (gitLog w) \<Longrightarrow> table w (lc_sha c) = Some c"
  unfolding table_def
  by (rule map_of_is_SomeI) (auto simp: comp_def)

lemma spec_batch:
  assumes "distinct (map lc_sha (gitLog w))" and "c \<in> set (gitLog w)" and "commitMeta s = table w"
  shows "batch (\<lambda>r. spec_codeInfoFiles w s r opts) (engine_commit w c) =
           map (\<lambda>pf. codeInfoFile w s c (engine_file w (lc_sha c) pf)) (lc_files c)"
  using table_lookup [OF assms(1,2)] assms(3)
  by (simp add: batch_def spec_codeInfoFiles_def engine_commit_def)

lemma keys_full: "map emission_key (full w s) = log_keys (gitLog w)"
  by (simp add: full_def log_keys_def map_concat comp_def key_codeInfoFile)

lemma spec_batches:
  assumes "distinct (map lc_sha (gitLog w))" and "commitMeta s = table w"
  shows "concat (map (batch (\<lambda>r. spec_codeInfoFiles w s r opts)) (map (engine_commit w) (gitLog w)))
         = full w s"
proof -
  have "\<forall>c \<in> set (gitLog w).
          batch (\<lambda>r. spec_codeInfoFiles w s r opts) (engine_commit w c) =
          map (\<lambda>pf. codeInfoFile w s c (engine_file w (lc_sha c) pf)) (lc_files c)"
    using spec_batch [OF assms(1) _ assms(2)] by blast
  then have B: "map (\<lambda>c. batch (\<lambda>r. spec_codeInfoFiles w s r opts) (engine_commit w c)) (gitLog w)
             = map (\<lambda>c. map (\<lambda>pf. codeInfoFile w s c (engine_file w (lc_sha c) pf)) (lc_files c)) (gitLog w)"
    by simp
  have A: "map (batch (\<lambda>r. spec_codeInfoFiles w s r opts)) (map (engine_commit w) (gitLog w))
           = map (\<lambda>c. batch (\<lambda>r. spec_codeInfoFiles w s r opts) (engine_commit w c)) (gitLog w)"
    by (simp add: comp_def)
  show ?thesis unfolding full_def A B by (rule refl)
qed

lemma concat_take_prefix: "\<exists>zs. concat xss = concat (take n xss) @ zs"
proof -
  have "concat xss = concat (take n xss @ drop n xss)" by simp
  then show ?thesis by (metis concat_append)
qed

lemma spec_pipeline_prefix:
  assumes "distinct (map lc_sha (gitLog w))" and "commitMeta s = table w"
  shows "\<exists>zs. full w s = delivered (pipeline (spec_env w) s d opts) @ zs"
proof -
  define f where "f = (\<lambda>r. spec_codeInfoFiles w s r opts)"
  define all where "all = map (engine_commit w) (gitLog w)"
  from pipeline_prefix [of "spec_env w" s opts d]
  obtain zs where z: "concat (map (batch f) (fst (spec_process_Run w (processOpts_of d opts))))
                      = delivered (pipeline (spec_env w) s d opts) @ zs"
    by (auto simp: spec_env_def f_def)
  have "\<exists>n. fst (spec_process_Run w (processOpts_of d opts)) = take n all"
    by (auto simp: spec_process_Run_def all_def split: option.splits intro: exI [of _ "length (gitLog w)"])
  then obtain n where "fst (spec_process_Run w (processOpts_of d opts)) = take n all" by blast
  with z have "concat (take n (map (batch f) all)) = delivered (pipeline (spec_env w) s d opts) @ zs"
    by (simp add: take_map)
  moreover from concat_take_prefix [of "map (batch f) all" n]
  obtain ys where "concat (map (batch f) all) = concat (take n (map (batch f) all)) @ ys" by blast
  moreover have "concat (map (batch f) all) = full w s"
    unfolding f_def all_def by (rule spec_batches [OF assms])
  ultimately show ?thesis by (metis append_assoc)
qed

lemma spec_meta:
  "getCommitInfo (spec_env w) s3 d opts = Inr m \<Longrightarrow> m = table w"
  by (simp add: spec_env_def spec_getCommitInfo_def table_def split: option.splits)

lemma spec_Rip_prefix:
  assumes "distinct (map lc_sha (gitLog w))"
  shows "\<exists>s' zs. full w s' = delivered (Rip (spec_env w) s d opts) @ zs"
proof -
  from Rip_body_cases [of "spec_env w" s d opts]
  show ?thesis
  proof
    assume "delivered (Rip_body (spec_env w) s d opts) = [] \<and>
            exit (Rip_body (spec_env w) s d opts) \<noteq> Returned None"
    then show ?thesis by (simp add: Rip_delivered)
  next
    assume "\<exists>s3 m. gitexec_Prepare (spec_env w) gitCommand d = None \<and>
            read_graph_and_branches (spec_env w) s d (effective_opts opts) = Inr s3 \<and>
            getCommitInfo (spec_env w) s3 d (effective_opts opts) = Inr m \<and>
            Rip_body (spec_env w) s d opts = pipeline (spec_env w) (s3\<lparr>commitMeta := m\<rparr>) d (effective_opts opts)"
    then obtain s3 m where m: "getCommitInfo (spec_env w) s3 d (effective_opts opts) = Inr m"
      and eq: "Rip_body (spec_env w) s d opts = pipeline (spec_env w) (s3\<lparr>commitMeta := m\<rparr>) d (effective_opts opts)"
      by blast
    from spec_meta [OF m] have "commitMeta (s3\<lparr>commitMeta := m\<rparr>) = table w" by simp
    from spec_pipeline_prefix [OF assms this, of d "effective_opts opts"] eq
    show ?thesis by (auto simp: Rip_delivered)
  qed
qed

lemma spec_Rip_success:
  assumes "exit (Rip (spec_env w) s d opts) = Returned None"
    and "distinct (map lc_sha (gitLog w))"
  shows "\<exists>s'. delivered (Rip (spec_env w) s d opts) = full w s'"
proof -
  from assms(1) have ex: "exit (Rip_body (spec_env w) s d opts) = Returned None"
    by (simp add: Rip_exit)
  with Rip_body_cases [of "spec_env w" s d opts]
  obtain s3 m where m: "getCommitInfo (spec_env w) s3 d (effective_opts opts) = Inr m"
      and eq: "Rip_body (spec_env w) s d opts = pipeline (spec_env w) (s3\<lparr>commitMeta := m\<rparr>) d (effective_opts opts)"
    by auto
  define s' where "s' = s3\<lparr>commitMeta := m\<rparr>"
  from spec_meta [OF m] have cm: "commitMeta s' = table w" by (simp add: s'_def)
  from ex eq have "exit (pipeline (spec_env w) s' d (effective_opts opts)) = Returned None"
    by (simp add: s'_def)
  from pipeline_success [OF this]
  have d: "delivered (pipeline (spec_env w) s' d (effective_opts opts)) =
           concat (map (batch (\<lambda>r. spec_codeInfoFiles w s' r (effective_opts opts)))
                       (fst (spec_process_Run w (processOpts_of d (effective_opts opts)))))"
    and n: "snd (spec_process_Run w (processOpts_of d (effective_opts opts))) = None"
    by (simp_all add: spec_env_def)
  from n have "fst (spec_process_Run w (processOpts_of d (effective_opts opts))) =
               map (engine_commit w) (gitLog w)"
    by (auto simp: spec_process_Run_def split: option.splits)
  with d spec_batches [OF assms(2) cm] eq show ?thesis
    by (auto simp: Rip_delivered s'_def)
qed

lemma count_distinct:
  "distinct xs \<Longrightarrow> x \<in> set xs \<Longrightarrow> length (filter (\<lambda>y. y = x) xs) = 1"
  by (induction xs) (auto simp: filter_empty_conv)

lemma full_member:
  "b \<in> set (full w s') \<Longrightarrow>
   \<exists>c pf. c \<in> set (gitLog w) \<and> pf \<in> set (lc_files c) \<and>
          b = codeInfoFile w s' c (engine_file w (lc_sha c) pf)"
  by (auto simp: full_def)

lemma Lines_codeInfoFile:
  "Lines (codeInfoFile w s c (engine_file w sha (p, fc))) =
     (if fc_status fc = GitFileCommitStatusRemoved \<or> fc_binary fc then [] else blameAt w sha p)"
  by (simp add: codeInfoFile_def engine_file_def Let_def)

text \<open>Evaluation of the example worlds.\<close>

lemma example_world_log:
  "distinct (map lc_sha (gitLog example_world))"
  "\<forall>c \<in> set (gitLog example_world). distinct (map fst (lc_files c))"
  "example_commit2 \<in> set (gitLog example_world)"
  "(''b.txt'', example_change GitFileCommitStatusRemoved) \<in> set (lc_files example_commit2)"
  by (simp_all add: example_world_def example_commit1_def example_commit2_def
        example_sha1_def example_sha2_def)

lemma example_world_exit:
  "exit (Rip (spec_env example_world) New ''repo'' None) = Returned None"
  by (simp add: Rip_eval spec_env_def spec_Prepare_def spec_getCommitInfo_def
        spec_process_Run_def spec_codeInfoFiles_def engine_commit_def
        example_world_def example_commit1_def example_commit2_def
        example_sha1_def example_sha2_def)

lemma example_world_keys:
  "map emission_key (delivered (Rip (spec_env example_world) New ''repo'' None)) =
     [(example_sha1, ''a.go''), (example_sha1, ''b.txt''),
      (example_sha2, ''a.go''), (example_sha2, ''b.txt'')]"
  by (simp add: Rip_eval spec_env_def spec_Prepare_def spec_getCommitInfo_def
        spec_process_Run_def spec_codeInfoFiles_def engine_commit_def
        example_world_def example_commit1_def example_commit2_def
        example_sha1_def example_sha2_def emission_key_def codeInfoFile_def engine_file_def)

text \<open>
  On a run that returns nil, for every commit of the log and every path in that commit's
  files, exactly one record with that sha and that file name is delivered to the sink;
  for a removed file the record carries an empty list of lines. The log lists every
  commit once and, \<^verbatim>\<open>files\<close> being a map, every path of a commit once.
\<close>

lemma one_emission_when_Rip_returns_nil:
  assumes "exit (Rip (spec_env w) s repoDir opts) = Returned None"
    and "distinct (map lc_sha (gitLog w))"
    and "\<forall>c \<in> set (gitLog w). distinct (map fst (lc_files c))"
    and "c \<in> set (gitLog w)" and "(p, fc) \<in> set (lc_files c)"
  shows "length (filter (\<lambda>b. SHA (Commit b) = lc_sha c \<and> Filename b = p)
                        (delivered (Rip (spec_env w) s repoDir opts))) = 1 \<and>
         (fc_status fc = GitFileCommitStatusRemoved \<longrightarrow>
            (\<forall>b \<in> set (delivered (Rip (spec_env w) s repoDir opts)).
               SHA (Commit b) = lc_sha c \<and> Filename b = p \<longrightarrow> Lines b = []))"
proof -
  from spec_Rip_success [OF assms(1,2)]
  obtain s' where d: "delivered (Rip (spec_env w) s repoDir opts) = full w s'" by blast
  have dist: "distinct (map emission_key (full w s'))"
    using distinct_log_keys [OF assms(2,3)] by (simp add: keys_full)
  have mem: "(lc_sha c, p) \<in> set (map emission_key (full w s'))"
    using assms(4,5) by (force simp: keys_full set_log_keys)
  have "length (filter (\<lambda>b. emission_key b = (lc_sha c, p)) (full w s')) =
        length (filter (\<lambda>k. k = (lc_sha c, p)) (map emission_key (full w s')))"
    by (simp add: filter_map comp_def)
  also have "\<dots> = 1" by (rule count_distinct [OF dist mem])
  finally have one: "length (filter (\<lambda>b. SHA (Commit b) = lc_sha c \<and> Filename b = p) (full w s')) = 1"
    by (simp add: emission_key_def)
  have removed: "Lines b = []"
    if rm: "fc_status fc = GitFileCommitStatusRemoved" and b: "b \<in> set (full w s')"
      and k: "SHA (Commit b) = lc_sha c" "Filename b = p" for b
  proof -
    from full_member [OF b] obtain c' pf' where c': "c' \<in> set (gitLog w)"
      and pf': "pf' \<in> set (lc_files c')"
      and beq: "b = codeInfoFile w s' c' (engine_file w (lc_sha c') pf')" by blast
    from k beq key_codeInfoFile [of w s' c' "lc_sha c'" pf']
    have ks: "lc_sha c' = lc_sha c" and kp: "fst pf' = p"
      by (simp_all add: emission_key_def)
    from assms(2) c' assms(4) ks have "c' = c"
      by (meson distinct_map inj_onD)
    with pf' kp assms(3,4,5) have "pf' = (p, fc)"
      by (metis eq_key_imp_eq_value prod.collapse)
    with beq rm show ?thesis by (simp add: Lines_codeInfoFile)
  qed
  from one removed d show ?thesis by simp
qed

lemma one_emission_when_Rip_returns_nil_example:
  "exit (Rip (spec_env example_world) New ''repo'' None) = Returned None \<and>
   distinct (map lc_sha (gitLog example_world)) \<and>
   length (filter (\<lambda>b. SHA (Commit b) = lc_sha example_commit2 \<and> Filename b = ''b.txt'')
                  (delivered (Rip (spec_env example_world) New ''repo'' None))) = 1 \<and>
   map Lines (filter (\<lambda>b. SHA (Commit b) = lc_sha example_commit2 \<and> Filename b = ''b.txt'')
                     (delivered (Rip (spec_env example_world) New ''repo'' None))) = [[]]"
proof -
  let ?P = "\<lambda>b. SHA (Commit b) = lc_sha example_commit2 \<and> Filename b = ''b.txt''"
  let ?xs = "filter ?P (delivered (Rip (spec_env example_world) New ''repo'' None))"
  from one_emission_when_Rip_returns_nil
         [OF example_world_exit example_world_log]
  have len: "length ?xs = 1"
    and rm: "\<forall>b \<in> set (delivered (Rip (spec_env example_world) New ''repo'' None)).
               ?P b \<longrightarrow> Lines b = []"
    by (simp_all add: example_change_def)
  from len obtain b where b: "?xs = [b]"
    by (cases ?xs) simp_all
  then have "b \<in> set ?xs" by simp
  then have "b \<in> set (delivered (Rip (spec_env example_world) New ''repo'' None))" and "?P b"
    by simp_all
  with rm have "Lines b = []" by blast
  with b have "map Lines ?xs = [[]]" by simp
  with len example_world_exit example_world_log(1) show ?thesis by simp
qed

text \<open>
  C1. For every commit processed by \<^verbatim>\<open>Rip\<close> and every path in that commit's files,
  exactly one record with that sha and that file name is delivered to the sink, also for
  a removed file. The code departs from this when \<^verbatim>\<open>gitProcessor.Run\<close> fails: the
  engine has handed over both commits of the example, \<^verbatim>\<open>Rip\<close> returns the error at
  line 169 without waiting for its worker, and the deferred close cuts the second commit
  short. Of its two files only \<^verbatim>\<open>a.go\<close> is delivered; for the removed \<^verbatim>\<open>b.txt\<close> there
  is no record, and the worker is left sending on the closed channel.
\<close>

theorem engine_error_cuts_commit_short:
  "exit (Rip (spec_env example_world_engine_fails) New ''repo'' None) =
     Returned (Some (Err ''patch apply failed'')) \<and>
   fst (spec_process_Run example_world_engine_fails
          (processOpts_of ''repo'' (effective_opts None))) =
     [engine_commit example_world_engine_fails example_commit1,
      engine_commit example_world_engine_fails example_commit2] \<and>
   (''b.txt'', example_change GitFileCommitStatusRemoved) \<in> set (lc_files example_commit2) \<and>
   map emission_key (delivered (Rip (spec_env example_world_engine_fails) New ''repo'' None)) =
     [(example_sha1, ''a.go''), (example_sha1, ''b.txt''), (example_sha2, ''a.go'')] \<and>
   filter (\<lambda>b. SHA (Commit b) = lc_sha example_commit2 \<and> Filename b = ''b.txt'')
          (delivered (Rip (spec_env example_world_engine_fails) New ''repo'' None)) = [] \<and>
   aftermath (Rip (spec_env example_world_engine_fails) New ''repo'' None) =
     Some SendOnClosedChannel"
  by (simp add: Rip_eval race_def spec_env_def spec_Prepare_def spec_getCommitInfo_def
        spec_process_Run_def spec_codeInfoFiles_def engine_commit_def
        example_world_engine_fails_def
        example_world_def example_commit1_def example_commit2_def example_change_def
        example_sha1_def example_sha2_def emission_key_def codeInfoFile_def engine_file_def)

text \<open>
  C8. Within a single call of \<^verbatim>\<open>Rip\<close>, no two records delivered to the sink share the
  same pair of commit sha and file name, however the call ends. The log lists every
  commit once and every path of a commit once.
\<close>

theorem no_duplicate_emissions:
  assumes "distinct (map lc_sha (gitLog w))"
    and "\<forall>c \<in> set (gitLog w). distinct (map fst (lc_files c))"
  shows "distinct (map emission_key (delivered (Rip (spec_env w) s repoDir opts)))"
proof -
  from spec_Rip_prefix [OF assms(1), of s repoDir opts]
  obtain s' zs where "full w s' = delivered (Rip (spec_env w) s repoDir opts) @ zs" by blast
  then have "map emission_key (full w s') =
             map emission_key (delivered (Rip (spec_env w) s repoDir opts)) @ map emission_key zs"
    by simp
  moreover have "distinct (map emission_key (full w s'))"
    using distinct_log_keys [OF assms] by (simp add: keys_full)
  ultimately show ?thesis by simp
qed

theorem no_duplicate_emissions_witness:
  "distinct (map lc_sha (gitLog example_world)) \<and>
   distinct (map emission_key (delivered (Rip (spec_env example_world) New ''repo'' None))) \<and>
   length (delivered (Rip (spec_env example_world) New ''repo'' None)) = 4"
proof -
  have "length (map emission_key (delivered (Rip (spec_env example_world) New ''repo'' None))) = 4"
    by (simp only: example_world_keys) simp
  then have "length (delivered (Rip (spec_env example_world) New ''repo'' None)) = 4"
    by simp
  with no_duplicate_emissions [OF example_world_log(1,2), of New "''repo''" None]
    example_world_log(1)
  show ?thesis by simp
qed

end
